theory Spec2Isabelle
  imports Complex_Main "HOL-Library.AList"
begin

section \<open>Text\<close>

text \<open>
  A Python \<open>str\<close> is modelled as a \<open>string\<close> holding its UTF-8 bytes. The character
  classes and case mappings below are Python's on the ASCII range, so every operation is
  the source's on ASCII text; the non-ASCII characters of the source's constants (emoji,
  typographic apostrophes) are carried as their bytes and are only compared and
  concatenated. On other text Python does more than the model: \<open>strip\<close> and \<open>\s\<close> also
  remove or match the Unicode spaces (the no-break space among them), \<open>lower\<close> and
  \<open>re.IGNORECASE\<close> also fold the cased letters outside ASCII (the Kelvin sign to \<open>k\<close>),
  and \<open>\w\<close> also matches the letters and digits outside ASCII. The statements below that
  run these operations do so on ASCII inputs; the others hold whatever the normalised
  text is.
\<close>

abbreviation apos :: string where
  "apos \<equiv> [CHR 0x27]"

definition code :: "char \<Rightarrow> nat" where
  "code c = of_char c"

text \<open>\<open>str.isspace\<close>: tab, newline, vertical tab, form feed, carriage return, the four
  separators \<open>0x1C\<close> to \<open>0x1F\<close>, and the space.\<close>

definition isspace :: "char \<Rightarrow> bool" where
  "isspace c = ((9 \<le> code c \<and> code c \<le> 13) \<or> (28 \<le> code c \<and> code c \<le> 32))"

definition isupper :: "char \<Rightarrow> bool" where
  "isupper c = (65 \<le> code c \<and> code c \<le> 90)"

definition islower :: "char \<Rightarrow> bool" where
  "islower c = (97 \<le> code c \<and> code c \<le> 122)"

definition isdigit :: "char \<Rightarrow> bool" where
  "isdigit c = (48 \<le> code c \<and> code c \<le> 57)"

definition lower_char :: "char \<Rightarrow> char" where
  "lower_char c = (if isupper c then char_of (code c + 32) else c)"

definition upper_char :: "char \<Rightarrow> char" where
  "upper_char c = (if islower c then char_of (code c - 32) else c)"

definition lower :: "string \<Rightarrow> string" where
  "lower s = map lower_char s"

definition lstrip :: "string \<Rightarrow> string" where
  "lstrip s = dropWhile isspace s"

definition rstrip :: "string \<Rightarrow> string" where
  "rstrip s = rev (dropWhile isspace (rev s))"

definition strip :: "string \<Rightarrow> string" where
  "strip s = rstrip (lstrip s)"

text \<open>\<open>str.capitalize\<close>: the first character in upper case, the others in lower case.\<close>

fun capitalize :: "string \<Rightarrow> string" where
  "capitalize [] = []"
| "capitalize (c # cs) = upper_char c # lower cs"

definition startswith :: "string \<Rightarrow> string \<Rightarrow> bool" where
  "startswith s p = (take (length p) s = p)"

text \<open>\<open>sub in s\<close> on strings: \<open>sub\<close> occurs in \<open>s\<close> as a contiguous run.\<close>

fun contains :: "string \<Rightarrow> string \<Rightarrow> bool" where
  "contains [] sub = (sub = [])"
| "contains (c # cs) sub = (startswith (c # cs) sub \<or> contains cs sub)"

text \<open>\<open>" ".join(parts)\<close>.\<close>

fun join_space :: "string list \<Rightarrow> string" where
  "join_space [] = []"
| "join_space [p] = p"
| "join_space (p # q # ps) = p @ '' '' @ join_space (q # ps)"

section \<open>Regular expressions\<close>

text \<open>
  The two patterns of \<open>Conversation.remember\<close> are written in the abstract syntax
  below and run by a backtracking matcher with the priorities of Python's \<open>re\<close>: an
  alternation tries its left branch first, \<open>?\<close>, \<open>*\<close> and \<open>+\<close> are greedy, and
  \<open>re.search\<close> returns the first match of the leftmost start position. All literals
  compare without case (\<open>re.IGNORECASE\<close>).
\<close>

datatype rx =
    Eps
  | Lit char
  | Word
  | Space
  | Bnd
  | Cat rx rx
  | Alt rx rx
  | Opt rx
  | Star rx
  | Grp rx

text \<open>\<open>\w\<close>: letters, digits and the underscore.\<close>

definition isword :: "char \<Rightarrow> bool" where
  "isword c = (isupper c \<or> islower c \<or> isdigit c \<or> c = CHR ''_'')"

text \<open>A matcher state: the character before the position (none at the start of the
  text), the text still to read, and what group 1 captured.\<close>

record mstate =
  prev :: "char option"
  rest :: string
  grp :: "string option"

definition prev_word :: "mstate \<Rightarrow> bool" where
  "prev_word st = (case prev st of None \<Rightarrow> False | Some c \<Rightarrow> isword c)"

definition next_word :: "mstate \<Rightarrow> bool" where
  "next_word st = (case rest st of [] \<Rightarrow> False | c # _ \<Rightarrow> isword c)"

definition eat :: "(char \<Rightarrow> bool) \<Rightarrow> mstate \<Rightarrow> mstate list" where
  "eat p st = (case rest st of
       [] \<Rightarrow> []
     | c # cs \<Rightarrow> if p c then [st\<lparr>prev := Some c, rest := cs\<rparr>] else [])"

definition shorter :: "mstate \<Rightarrow> mstate \<Rightarrow> bool" where
  "shorter st st' = (length (rest st') < length (rest st))"

text \<open>All ways of matching a pattern at a state, best first. An iteration of \<open>*\<close> that
  reads nothing is not repeated.\<close>

function (sequential) run :: "rx \<Rightarrow> mstate \<Rightarrow> mstate list" where
  "run Eps st = [st]"
| "run (Lit a) st = eat (\<lambda>c. lower_char c = lower_char a) st"
| "run Word st = eat isword st"
| "run Space st = eat isspace st"
| "run Bnd st = (if prev_word st \<noteq> next_word st then [st] else [])"
| "run (Cat r s) st = concat (map (run s) (run r st))"
| "run (Alt r s) st = run r st @ run s st"
| "run (Opt r) st = run r st @ [st]"
| "run (Star r) st =
     concat (map (run (Star r)) (filter (shorter st) (run r st))) @ [st]"
| "run (Grp r) st =
     map (\<lambda>st'. st'\<lparr>grp := Some (take (length (rest st) - length (rest st')) (rest st))\<rparr>)
       (run r st)"
  by pat_completeness auto
termination
  by (relation "inv_image (less_than <*lex*> less_than) (\<lambda>(r, st). (size r, length (rest st)))")
    (auto simp: shorter_def)

text \<open>\<open>re.search\<close>: the start positions from left to right, the end of the text
  included.\<close>

fun search_from :: "rx \<Rightarrow> char option \<Rightarrow> string \<Rightarrow> mstate option" where
  "search_from r p [] =
     (case run r \<lparr>prev = p, rest = [], grp = None\<rparr> of [] \<Rightarrow> None | st # _ \<Rightarrow> Some st)"
| "search_from r p (c # cs) =
     (case run r \<lparr>prev = p, rest = c # cs, grp = None\<rparr> of
        [] \<Rightarrow> search_from r (Some c) cs
      | st # _ \<Rightarrow> Some st)"

definition search :: "rx \<Rightarrow> string \<Rightarrow> mstate option" where
  "search r s = search_from r None s"

text \<open>\<open>m.group(1)\<close>; group 1 takes part in every match of the two patterns below.\<close>

definition group1 :: "mstate \<Rightarrow> string" where
  "group1 st = (case grp st of None \<Rightarrow> [] | Some g \<Rightarrow> g)"

fun lits :: "string \<Rightarrow> rx" where
  "lits [] = Eps"
| "lits (c # cs) = Cat (Lit c) (lits cs)"

definition plus_rx :: "rx \<Rightarrow> rx" where
  "plus_rx r = Cat r (Star r)"

text \<open>\<^verbatim>\<open>\bmy name is (\w+)\<close>\<close>

definition name_rx :: rx where
  "name_rx = Cat Bnd (Cat (lits ''my name is '') (Grp (plus_rx Word)))"

text \<open>\<^verbatim>\<open>\bI(?:'m| am) (?:feeling|a bit)?\s*(\w+)\<close>\<close>

definition mood_rx :: rx where
  "mood_rx =
     Cat Bnd (Cat (Lit CHR ''I'') (Cat (Alt (lits (apos @ ''m'')) (lits '' am''))
       (Cat (Lit CHR '' '') (Cat (Opt (Alt (lits ''feeling'') (lits ''a bit'')))
         (Cat (Star Space) (Grp (plus_rx Word)))))))"

section \<open>Conversations\<close>

text \<open>The exceptions of the program: Python's own, those of \<open>requests\<close> (an
  \<open>HTTPError\<close> carries the status code of its response) and FastAPI's
  \<open>HTTPException\<close> with its status code and detail. All of them are subclasses of
  \<open>Exception\<close>.\<close>

datatype error =
    ValueError string
  | KeyError
  | TypeError
  | AttributeError
  | IndexError
  | HTTPError nat
  | ConnectionError
  | RequestException
  | HTTPException nat string
  | OtherException

record message =
  role :: string
  content :: string

text \<open>A \<open>dict\<close> is an association list in insertion order: \<open>map_of\<close> reads a key,
  \<open>AList.update\<close> assigns one.\<close>

type_synonym 'v dict = "(string \<times> 'v) list"

definition TONE_PROMPTS :: "string dict" where
  "TONE_PROMPTS =
    [(''serious'', ''You are a serious and professional assistant. ''
        @ [CHR 0xF0, CHR 0x9F, CHR 0x93, CHR 0x98]),
     (''funny'', ''You are a funny and witty assistant ''
        @ [CHR 0xF0, CHR 0x9F, CHR 0x98, CHR 0x82, CHR 0xE2, CHR 0x9C, CHR 0xA8]),
     (''poetic'', ''You are a poetic AI who speaks in rhymes ''
        @ [CHR 0xF0, CHR 0x9F, CHR 0x8C, CHR 0xB8, CHR 0xF0, CHR 0x9F, CHR 0x8E, CHR 0xB5]),
     (''dark_humor'', ''You are a dark-humored assistant ''
        @ [CHR 0xF0, CHR 0x9F, CHR 0x96, CHR 0xA4, CHR 0xF0, CHR 0x9F, CHR 0x92, CHR 0x80,
           CHR 0xF0, CHR 0x9F, CHR 0xA6, CHR 0x83])]"

record conversation =
  messages :: "message list"
  active :: bool
  tone_set :: bool
  current_tone :: string
  memory :: "string dict"
  title :: string

definition system_msg :: "string \<Rightarrow> message" where
  "system_msg text = \<lparr>role = ''system'', content = text\<rparr>"

text \<open>A method that can raise returns what it raised, if it did, and the object as the
  call leaves it. \<open>not prompt\<close> holds of a missing key and of an empty prompt.\<close>

definition invalid_tone :: error where
  "invalid_tone = ValueError ''Invalid tone. Options: funny, serious, poetic, dark_humor''"

definition set_tone :: "string \<Rightarrow> conversation \<Rightarrow> (error + unit) \<times> conversation" where
  "set_tone tone c =
     (let tone_key = strip (lower tone) in
      case map_of TONE_PROMPTS tone_key of
        None \<Rightarrow> (Inl invalid_tone, c)
      | Some prompt \<Rightarrow>
          if prompt = [] then (Inl invalid_tone, c)
          else (Inr (), c\<lparr>messages := [system_msg prompt], current_tone := tone_key,
                          tone_set := True\<rparr>))"

text \<open>\<open>Conversation.__init__\<close>; the defaults of its arguments are \<open>"funny"\<close> and
  \<open>"New Chat"\<close>. An exception of \<open>set_tone\<close> leaves no object.\<close>

definition Conversation :: "string \<Rightarrow> string \<Rightarrow> error + conversation" where
  "Conversation tone ttl =
     (case set_tone tone \<lparr>messages = [], active = True, tone_set = False, current_tone = [],
         memory = [], title = ttl\<rparr> of
        (Inl e, _) \<Rightarrow> Inl e
      | (Inr _, c) \<Rightarrow> Inr c)"

definition remember :: "string \<Rightarrow> conversation \<Rightarrow> conversation" where
  "remember msg c =
     (let name_match = search name_rx msg;
          mood_match = search mood_rx msg;
          c1 = (case name_match of
                  None \<Rightarrow> c
                | Some m \<Rightarrow> c\<lparr>memory := AList.update ''name'' (capitalize (group1 m)) (memory c)\<rparr>)
      in case mood_match of
           None \<Rightarrow> c1
         | Some m \<Rightarrow>
             (let mood = lower (group1 m) in
              if mood \<notin> set [''a'', ''bit'', ''feeling'']
              then c1\<lparr>memory := AList.update ''mood'' mood (memory c1)\<rparr>
              else c1))"

definition memory_facts :: "string dict \<Rightarrow> string list" where
  "memory_facts mem =
     (case map_of mem ''name'' of
        None \<Rightarrow> []
      | Some n \<Rightarrow> [''The user'' @ apos @ ''s name is '' @ n @ ''.''])
     @ (case map_of mem ''mood'' of
          None \<Rightarrow> []
        | Some m \<Rightarrow> [''The user mentioned they were feeling '' @ m @ '' earlier.''])"

text \<open>\<open>list.insert(1, x)\<close> puts \<open>x\<close> before the element at index 1, or at the end of a
  shorter list.\<close>

definition insert_at :: "nat \<Rightarrow> 'a \<Rightarrow> 'a list \<Rightarrow> 'a list" where
  "insert_at i x xs = take i xs @ x # drop i xs"

definition inject_memory_context :: "conversation \<Rightarrow> conversation" where
  "inject_memory_context c =
     (let facts = memory_facts (memory c) in
      if facts \<noteq> [] then
        c\<lparr>messages := insert_at 1 (system_msg (join_space facts)) (messages c)\<rparr>
      else c)"

section \<open>The GIF search\<close>

definition FALLBACK_GIF :: string where
  "FALLBACK_GIF = ''https://media.tenor.com/4zFMa2onE44AAAAC/funny-cat.gif''"

definition FALLBACK_MESSAGE :: string where
  "FALLBACK_MESSAGE = ''Couldn'' @ [CHR 0xE2, CHR 0x80, CHR 0x99]
     @ ''t fetch a GIF due to network issues. Here'' @ [CHR 0xE2, CHR 0x80, CHR 0x99]
     @ ''s a funny cat instead!''"

text \<open>The values that \<open>response.json()\<close> builds. A float is given by its exact value.\<close>

datatype pyval =
    PNone
  | PBool bool
  | PInt int
  | PFloat rat
  | PStr string
  | PList "pyval list"
  | PDict "(string \<times> pyval) list"

text \<open>The truth value of an object, as \<open>if x\<close> and \<open>not x\<close> take it.\<close>

fun truthy :: "pyval \<Rightarrow> bool" where
  "truthy PNone = False"
| "truthy (PBool b) = b"
| "truthy (PInt i) = (i \<noteq> 0)"
| "truthy (PFloat r) = (r \<noteq> 0)"
| "truthy (PStr s) = (s \<noteq> [])"
| "truthy (PList xs) = (xs \<noteq> [])"
| "truthy (PDict d) = (d \<noteq> [])"

text \<open>\<open>data.get("results", [])\<close>: only a dict has the method.\<close>

fun get_results :: "pyval \<Rightarrow> error + pyval" where
  "get_results (PDict d) =
     Inr (case map_of d ''results'' of None \<Rightarrow> PList [] | Some v \<Rightarrow> v)"
| "get_results _ = Inl AttributeError"

text \<open>\<open>x[key]\<close> with a string key: a dict is looked up, every other type raises.\<close>

fun subscript :: "string \<Rightarrow> pyval \<Rightarrow> error + pyval" where
  "subscript k (PDict d) = (case map_of d k of None \<Rightarrow> Inl KeyError | Some v \<Rightarrow> Inr v)"
| "subscript k _ = Inl TypeError"

text \<open>\<open>random.choice(seq)\<close> is \<open>seq[i]\<close> for a drawn \<open>i\<close> below \<open>len(seq)\<close>; the draw
  is the number \<open>k\<close> reduced modulo the length. A string yields one of its characters, a
  dict is read at an integer key that a parsed JSON object does not have, an object
  without a length raises.\<close>

fun choice :: "nat \<Rightarrow> pyval \<Rightarrow> error + pyval" where
  "choice k (PList xs) = (if xs = [] then Inl IndexError else Inr (xs ! (k mod length xs)))"
| "choice k (PStr s) = (if s = [] then Inl IndexError else Inr (PStr [s ! (k mod length s)]))"
| "choice k (PDict d) = (if d = [] then Inl IndexError else Inl KeyError)"
| "choice k _ = Inl TypeError"

definition and_then :: "error + 'a \<Rightarrow> ('a \<Rightarrow> error + 'b) \<Rightarrow> error + 'b" where
  "and_then r f = (case r of Inl e \<Rightarrow> Inl e | Inr x \<Rightarrow> f x)"

text \<open>An HTTP response: its status code and the value its body parses to as JSON, if it
  does.\<close>

record http_response =
  status_code :: nat
  json_body :: "pyval option"

definition raise_for_status :: "http_response \<Rightarrow> error + http_response" where
  "raise_for_status r =
     (if 400 \<le> status_code r \<and> status_code r < 600 then Inl (HTTPError (status_code r))
      else Inr r)"

text \<open>\<open>response.json()\<close>: a body that is not JSON raises the decoding error of
  \<open>requests\<close>, a \<open>RequestException\<close>.\<close>

definition json :: "http_response \<Rightarrow> error + pyval" where
  "json r = (case json_body r of None \<Rightarrow> Inl RequestException | Some v \<Rightarrow> Inr v)"

text \<open>
  What the program calls and does not define: the Tenor key of the environment,
  \<open>session.get\<close> (the outcome of the \<open>n\<close>-th request of a session for a URL, after the
  retries of its adapter: a response or an exception), the two draws of \<open>random\<close>, the
  sentiment classifier (the label of its first result), the completion call (the text of
  the first choice, or the text of the exception), and \<open>str()\<close> of a value that is not a
  string.
\<close>

record env =
  TENOR_API_KEY :: string
  session_get :: "nat \<Rightarrow> string \<Rightarrow> error + http_response"
  random_choice :: nat
  random_random :: rat
  sentiment_analyzer :: "string \<Rightarrow> error + string"
  completions_create :: "message list \<Rightarrow> string + string"
  str_of :: "pyval \<Rightarrow> string"

text \<open>\<open>urllib.parse.quote\<close>: letters, digits and \<open>_.-~/\<close> stay, every other byte
  becomes \<open>%XX\<close>.\<close>

definition hex_digit :: "nat \<Rightarrow> char" where
  "hex_digit n = ''0123456789ABCDEF'' ! (n mod 16)"

definition quote_char :: "char \<Rightarrow> string" where
  "quote_char c =
     (if isupper c \<or> islower c \<or> isdigit c \<or> c \<in> set ''_.-~/'' then [c]
      else [CHR ''%'', hex_digit (code c div 16), hex_digit (code c mod 16)])"

definition quote :: "string \<Rightarrow> string" where
  "quote s = concat (map quote_char s)"

definition search_url :: "env \<Rightarrow> string \<Rightarrow> string" where
  "search_url E q = ''https://api.tenor.com/v2/search?key='' @ TENOR_API_KEY E @ ''&q='' @ q
     @ ''&limit=5&contentfilter=medium''"

text \<open>One request and the reading of its answer: \<open>session.get\<close>,
  \<open>raise_for_status\<close>, \<open>json\<close>, \<open>data.get("results", [])\<close>.\<close>

definition fetch_results :: "env \<Rightarrow> nat \<Rightarrow> string \<Rightarrow> error + pyval" where
  "fetch_results E n url =
     and_then (session_get E n url) (\<lambda>response.
     and_then (raise_for_status response) (\<lambda>response.
     and_then (json response) get_results))"

text \<open>\<open>g["media_formats"]["gif"]["url"]\<close>\<close>

definition gif_url_of :: "pyval \<Rightarrow> error + pyval" where
  "gif_url_of g =
     and_then (subscript ''media_formats'' g) (\<lambda>f.
     and_then (subscript ''gif'' f) (subscript ''url''))"

text \<open>From \<open>if gifs:\<close> to the end of the \<open>try\<close> block.\<close>

definition select_gif :: "env \<Rightarrow> pyval \<Rightarrow> error + pyval" where
  "select_gif E gifs =
     (if truthy gifs then and_then (choice (random_choice E) gifs) gif_url_of
      else Inr (PStr FALLBACK_GIF))"

definition normalize_query :: "string \<Rightarrow> string" where
  "normalize_query query =
     (let q = strip (lower query) in if q = ''peple'' then ''people'' else q)"

text \<open>The \<open>try\<close> block of \<open>get_gif_url\<close>, with the URLs it requested.\<close>

definition try_get_gif_url :: "env \<Rightarrow> string \<Rightarrow> (error + pyval) \<times> string list" where
  "try_get_gif_url E query =
     (let url = search_url E (quote (normalize_query query)) in
      case fetch_results E 0 url of
        Inl e \<Rightarrow> (Inl e, [url])
      | Inr gifs \<Rightarrow>
          if \<not> truthy gifs then
            (let url2 = search_url E ''funny'' in
             case fetch_results E 1 url2 of
               Inl e \<Rightarrow> (Inl e, [url, url2])
             | Inr gifs2 \<Rightarrow> (select_gif E gifs2, [url, url2]))
          else (select_gif E gifs, [url]))"

text \<open>The \<open>except\<close> clauses, in their order.\<close>

fun except_clauses :: "error \<Rightarrow> error + pyval" where
  "except_clauses (HTTPError status) = Inr (PStr FALLBACK_GIF)"
| "except_clauses ConnectionError = Inr (PStr FALLBACK_GIF)"
| "except_clauses RequestException = Inr (PStr FALLBACK_GIF)"
| "except_clauses _ = Inr (PStr FALLBACK_GIF)"

definition get_gif_url :: "env \<Rightarrow> string \<Rightarrow> (error + pyval) \<times> string list" where
  "get_gif_url E query =
     (case try_get_gif_url E query of
        (Inl e, urls) \<Rightarrow> (except_clauses e, urls)
      | (Inr v, urls) \<Rightarrow> (Inr v, urls))"

section \<open>The chat endpoint\<close>

record UserInput =
  input_message :: string
  input_role :: string
  input_conversation_id :: string

text \<open>The returned dict: \<open>gif\<close> is \<open>None\<close> where the key is absent.\<close>

record reply =
  response :: string
  conversation_id :: string
  gif :: "pyval option"

text \<open>The calls that leave the process, in the order they are made.\<close>

datatype call =
    TenorGet string
  | SentimentCall string
  | CompletionCall "message list"
  | RandomDraw

type_synonym registry = "conversation dict"

type_synonym outcome = "(error + reply) \<times> registry \<times> call list"

definition get_or_create_conversation ::
  "string \<Rightarrow> registry \<Rightarrow> (error + conversation) \<times> registry" where
  "get_or_create_conversation cid conversations =
     (case map_of conversations cid of
        Some c \<Rightarrow> (Inr c, conversations)
      | None \<Rightarrow>
          (case Conversation ''funny'' ''New Chat'' of
             Inl e \<Rightarrow> (Inl e, conversations)
           | Inr c \<Rightarrow> (Inr c, AList.update cid c conversations)))"

definition query_groq_api :: "env \<Rightarrow> conversation \<Rightarrow> error + string" where
  "query_groq_api E c =
     (case completions_create E (messages c) of
        Inl e \<Rightarrow> Inl (HTTPException 500 (''Groq API failed: '' @ e))
      | Inr text \<Rightarrow> Inr text)"

text \<open>The value in an f-string.\<close>

definition fmt :: "env \<Rightarrow> pyval \<Rightarrow> string" where
  "fmt E v = (case v of PStr s \<Rightarrow> s | _ \<Rightarrow> str_of E v)"

text \<open>\<open>gif_url if gif_url else None\<close>\<close>

definition or_none :: "pyval \<Rightarrow> pyval" where
  "or_none v = (if truthy v then v else PNone)"

definition append_msg :: "string \<Rightarrow> string \<Rightarrow> conversation \<Rightarrow> conversation" where
  "append_msg r text c = c\<lparr>messages := messages c @ [\<lparr>role = r, content = text\<rparr>]\<rparr>"

definition nl :: string where
  "nl = [CHR 0x0A]"

definition gif_markdown :: "env \<Rightarrow> pyval \<Rightarrow> string" where
  "gif_markdown E gif_url = nl @ ''![GIF]('' @ fmt E gif_url @ '')''"

text \<open>The branch of the \<open>/gif\<close> command.\<close>

definition gif_command ::
  "env \<Rightarrow> string \<Rightarrow> string \<Rightarrow> conversation \<Rightarrow> registry \<Rightarrow> outcome" where
  "gif_command E cid user_msg conversation conversations =
     (let topic = strip (drop 5 user_msg) in
      if topic = [] then
        (Inr \<lparr>response = ''Please specify a topic after /gif'', conversation_id = cid,
              gif = None\<rparr>, conversations, [])
      else
        (case get_gif_url E topic of
           (Inl e, urls) \<Rightarrow> (Inl e, conversations, map TenorGet urls)
         | (Inr gif_url, urls) \<Rightarrow>
             (let text =
                (if gif_url = PStr FALLBACK_GIF then FALLBACK_MESSAGE @ gif_markdown E gif_url
                 else if truthy gif_url then
                   ''Here'' @ apos @ ''s a GIF for you!'' @ gif_markdown E gif_url
                 else ''Sorry, couldn'' @ apos
                   @ ''t find a suitable GIF for that topic. Try another topic!'');
                  c1 = append_msg ''user'' (''/gif '' @ topic) conversation;
                  c2 = append_msg ''assistant'' text c1
              in (Inr \<lparr>response = text, conversation_id = cid, gif = Some (or_none gif_url)\<rparr>,
                  AList.update cid c2 conversations, map TenorGet urls))))"

definition invalid_tone_reply :: "string \<Rightarrow> reply" where
  "invalid_tone_reply cid =
     \<lparr>response = ''Invalid tone. Options: funny, serious, poetic, dark_humor.'',
      conversation_id = cid, gif = None\<rparr>"

text \<open>\<open>get_gif_url("celebrate") if tone == "funny" else ""\<close>, with the URLs requested.\<close>

definition celebrate_gif :: "env \<Rightarrow> string \<Rightarrow> (error + pyval) \<times> string list" where
  "celebrate_gif E tone =
     (if tone = ''funny'' then get_gif_url E ''celebrate'' else (Inr (PStr []), []))"

text \<open>The \<open>try\<close> block of the \<open>/tone\<close> command and its \<open>except ValueError\<close>, which
  answers a \<open>ValueError\<close> of the block with the guidance text. The conversation is the
  object held by the registry, so what the block did to it before an exception stays.\<close>

definition tone_command ::
  "env \<Rightarrow> string \<Rightarrow> string \<Rightarrow> conversation \<Rightarrow> registry \<Rightarrow> outcome" where
  "tone_command E cid user_msg conversation conversations =
     (let tone = strip (drop 5 user_msg) in
      if tone = [] then
        (Inr \<lparr>response = ''Please specify a tone after /tone'', conversation_id = cid,
              gif = None\<rparr>, conversations, [])
      else
        (case set_tone tone conversation of
           (Inl (ValueError _), c1) \<Rightarrow>
             (Inr (invalid_tone_reply cid), AList.update cid c1 conversations, [])
         | (Inl e, c1) \<Rightarrow> (Inl e, AList.update cid c1 conversations, [])
         | (Inr _, c1) \<Rightarrow>
             (case celebrate_gif E tone of
                (Inl (ValueError _), urls) \<Rightarrow>
                  (Inr (invalid_tone_reply cid), AList.update cid c1 conversations,
                   map TenorGet urls)
              | (Inl e, urls) \<Rightarrow> (Inl e, AList.update cid c1 conversations, map TenorGet urls)
              | (Inr gif_url, urls) \<Rightarrow>
                  (let changed = ''Tone changed to '' @ apos @ tone @ apos;
                       text =
                         (if gif_url = PStr FALLBACK_GIF then
                            changed @ nl @ FALLBACK_MESSAGE @ gif_markdown E gif_url
                          else changed @ (if truthy gif_url then gif_markdown E gif_url else []));
                       c2 = append_msg ''assistant'' text c1
                   in (Inr \<lparr>response = text, conversation_id = cid,
                            gif = Some (or_none gif_url)\<rparr>,
                       AList.update cid c2 conversations, map TenorGet urls)))))"

definition onboarding :: string where
  "onboarding = [CHR 0xF0, CHR 0x9F, CHR 0x91, CHR 0x8B]
     @ '' Hi! Choose your tone: `/tone funny`, `/tone serious`, `/tone poetic`, `/tone dark_humor`''
     @ nl @ ''Request a GIF with: `/gif <topic>`''"

definition mood_note :: "string \<Rightarrow> string" where
  "mood_note sentiment =
     (if sentiment = ''positive'' then
        ''The user seems happy. Be playful and joyful in your response. ''
          @ [CHR 0xF0, CHR 0x9F, CHR 0x98, CHR 0x84]
      else if sentiment = ''negative'' then
        ''The user seems sad. Be empathetic and comforting in your response. ''
          @ [CHR 0xF0, CHR 0x9F, CHR 0xA5, CHR 0xBA]
      else ''The user is neutral. Respond normally.'')"

text \<open>The guard of the memory injection and the injection:
  \<^verbatim>\<open>if conversation.memory and not any("user's name" in m['content'] for m in conversation.messages)\<close>\<close>

definition name_marker :: string where
  "name_marker = ''user'' @ apos @ ''s name''"

definition mentions_name :: "conversation \<Rightarrow> bool" where
  "mentions_name c = list_ex (\<lambda>m. contains (content m) name_marker) (messages c)"

definition inject_step :: "conversation \<Rightarrow> conversation" where
  "inject_step c =
     (if memory c \<noteq> [] \<and> \<not> mentions_name c then inject_memory_context c else c)"

text \<open>The decoration of the answer with a GIF, from \<open>gif_url = None\<close> to the last
  \<open>append\<close>: the answer text, the \<open>gif\<close> of the reply and the calls made. The draw is
  made only when the first operand of \<open>and\<close> holds.\<close>

definition decorate ::
  "env \<Rightarrow> string \<Rightarrow> conversation \<Rightarrow> string \<Rightarrow> (error + string \<times> pyval) \<times> call list" where
  "decorate E sentiment c text =
     (if sentiment = ''positive'' \<or> current_tone c = ''funny'' then
        (if random_random E < 3 / 10 then
           (case get_gif_url E (if sentiment = ''positive'' then ''happy'' else ''funny'') of
              (Inl e, urls) \<Rightarrow> (Inl e, RandomDraw # map TenorGet urls)
            | (Inr gif_url, urls) \<Rightarrow>
                (Inr (if gif_url = PStr FALLBACK_GIF then
                        text @ nl @ FALLBACK_MESSAGE @ gif_markdown E gif_url
                      else if truthy gif_url then text @ gif_markdown E gif_url
                      else text, or_none gif_url),
                 RandomDraw # map TenorGet urls))
         else (Inr (text, PNone), [RandomDraw]))
      else (Inr (text, PNone), []))"

text \<open>The chat pipeline, from \<open>conversation.remember(user_msg)\<close> on. Every change of
  the conversation made before an exception stays in the registry.\<close>

definition chat_turn ::
  "env \<Rightarrow> UserInput \<Rightarrow> string \<Rightarrow> conversation \<Rightarrow> registry \<Rightarrow> outcome" where
  "chat_turn E inp user_msg conversation conversations =
     (let cid = input_conversation_id inp;
          c1 = remember user_msg conversation in
      case sentiment_analyzer E user_msg of
        Inl e \<Rightarrow> (Inl e, AList.update cid c1 conversations, [SentimentCall user_msg])
      | Inr label \<Rightarrow>
          (let sentiment = lower label;
               c2 = inject_step c1;
               c3 = append_msg ''system'' (mood_note sentiment) c2;
               c4 = append_msg (input_role inp) (input_message inp) c3;
               calls = [SentimentCall user_msg, CompletionCall (messages c4)] in
           case query_groq_api E c4 of
             Inl e \<Rightarrow> (Inl e, AList.update cid c4 conversations, calls)
           | Inr text \<Rightarrow>
               (case decorate E sentiment c4 text of
                  (Inl e, calls2) \<Rightarrow> (Inl e, AList.update cid c4 conversations, calls @ calls2)
                | (Inr (text2, gif_url), calls2) \<Rightarrow>
                    (Inr \<lparr>response = text2, conversation_id = cid, gif = Some gif_url\<rparr>,
                     AList.update cid (append_msg ''assistant'' text2 c4) conversations,
                     calls @ calls2))))"

definition chat :: "env \<Rightarrow> UserInput \<Rightarrow> registry \<Rightarrow> outcome" where
  "chat E inp conversations0 =
     (let cid = input_conversation_id inp in
      case get_or_create_conversation cid conversations0 of
        (Inl e, conversations) \<Rightarrow> (Inl e, conversations, [])
      | (Inr conversation, conversations) \<Rightarrow>
          if \<not> active conversation then
            (Inl (HTTPException 400 ''Chat session ended.''), conversations, [])
          else
            (let user_msg = strip (input_message inp) in
             if startswith (lower user_msg) ''/gif'' then
               gif_command E cid user_msg conversation conversations
             else if startswith (lower user_msg) ''/tone'' then
               tone_command E cid user_msg conversation conversations
             else if \<not> tone_set conversation then
               (Inr \<lparr>response = onboarding, conversation_id = cid, gif = None\<rparr>,
                conversations, [])
             else chat_turn E inp user_msg conversation conversations))"

section \<open>Creating a chat\<close>

record NewChatRequest =
  new_conversation_id :: string
  new_tone :: string
  new_title :: string

definition new_chat :: "NewChatRequest \<Rightarrow> registry \<Rightarrow> (error + string \<times> string) \<times> registry" where
  "new_chat data conversations =
     (case map_of conversations (new_conversation_id data) of
        Some _ \<Rightarrow> (Inl (HTTPException 400 ''Chat ID already exists.''), conversations)
      | None \<Rightarrow>
          (case Conversation (new_tone data) (new_title data) of
             Inl e \<Rightarrow> (Inl e, conversations)
           | Inr c \<Rightarrow>
               (Inr (''Chat '' @ apos @ new_title data @ apos @ '' created.'',
                     new_conversation_id data),
                AList.update (new_conversation_id data) c conversations)))"

section \<open>Example data\<close>

definition example_conversation :: conversation where
  "example_conversation =
     \<lparr>messages = [system_msg ''You are a serious and professional assistant.'',
                  \<lparr>role = ''user'', content = ''hello''\<rparr>],
      active = True, tone_set = True, current_tone = ''serious'',
      memory = [(''name'', ''Alice'')], title = ''Work''\<rparr>"

definition default_conversation :: conversation where
  "default_conversation =
     \<lparr>messages = [system_msg (''You are a funny and witty assistant ''
          @ [CHR 0xF0, CHR 0x9F, CHR 0x98, CHR 0x82, CHR 0xE2, CHR 0x9C, CHR 0xA8])],
      active = True, tone_set = True, current_tone = ''funny'', memory = [],
      title = ''New Chat''\<rparr>"

definition sad_context :: message where
  "sad_context = system_msg ''The user mentioned they were feeling sad earlier.''"

definition user_says :: "string \<Rightarrow> UserInput" where
  "user_says msg = \<lparr>input_message = msg, input_role = ''user'', input_conversation_id = ''c1''\<rparr>"

text \<open>A search result that carries an animated-image URL, and a response with results.\<close>

definition candidate :: "string \<Rightarrow> pyval" where
  "candidate u = PDict [(''media_formats'', PDict [(''gif'', PDict [(''url'', PStr u)])])]"

definition results_response :: "pyval list \<Rightarrow> http_response" where
  "results_response gs = \<lparr>status_code = 200, json_body = Some (PDict [(''results'', PList gs)])\<rparr>"

text \<open>An environment over a given network: the classifier answers \<open>NEGATIVE\<close>, the
  completion call answers with a fixed sentence, the draw is one half.\<close>

definition example_env :: "(nat \<Rightarrow> string \<Rightarrow> error + http_response) \<Rightarrow> env" where
  "example_env net =
     \<lparr>TENOR_API_KEY = ''KEY'', session_get = net, random_choice = 7, random_random = 1 / 2,
      sentiment_analyzer = (\<lambda>msg. Inr ''NEGATIVE''),
      completions_create = (\<lambda>ms. Inr ''I am here for you.''),
      str_of = (\<lambda>v. ''None'')\<rparr>"

definition offline :: "nat \<Rightarrow> string \<Rightarrow> error + http_response" where
  "offline n url = Inl ConnectionError"


text \<open>No result for the first request of a session, the given ones for the later
  requests.\<close>

definition fallback_only :: "pyval list \<Rightarrow> nat \<Rightarrow> string \<Rightarrow> error + http_response" where
  "fallback_only gs n url = Inr (results_response (if n = 0 then [] else gs))"



section \<open>An invariant of the registry\<close>

definition all_tone_set :: "registry \<Rightarrow> bool" where
  "all_tone_set conversations = list_all (\<lambda>(cid, c). tone_set c) conversations"

section \<open>Tone switches\<close>

lemma set_tone_valid:
  "map_of TONE_PROMPTS (strip (lower tone)) = Some prompt \<Longrightarrow>
   set_tone tone c = (Inr (), c\<lparr>messages := [system_msg prompt],
      current_tone := strip (lower tone), tone_set := True\<rparr>)"
  by (auto simp: set_tone_def TONE_PROMPTS_def split: if_splits)

lemma set_tone_invalid:
  "map_of TONE_PROMPTS (strip (lower tone)) = None \<Longrightarrow> set_tone tone c = (Inl invalid_tone, c)"
  by (simp add: set_tone_def)

text \<open>
  Claim C2. A tone switch is atomic. When the lower-cased, stripped tone is a key of the
  tone registry, \<open>set_tone\<close> succeeds and the transcript becomes the single system entry
  with that tone's prompt (memory and title stay). When it is not a key, \<open>set_tone\<close>
  raises the invalid-tone error and the whole conversation, so its messages, memory and
  title, is as before.
\<close>

theorem set_tone_atomic:
  "(map_of TONE_PROMPTS (strip (lower tone)) = Some prompt \<longrightarrow>
      fst (set_tone tone c) = Inr ()
      \<and> messages (snd (set_tone tone c)) = [\<lparr>role = ''system'', content = prompt\<rparr>]
      \<and> memory (snd (set_tone tone c)) = memory c
      \<and> title (snd (set_tone tone c)) = title c)
   \<and> (map_of TONE_PROMPTS (strip (lower tone)) = None \<longrightarrow>
      fst (set_tone tone c) = Inl invalid_tone \<and> snd (set_tone tone c) = c)"
  by (simp add: set_tone_valid set_tone_invalid system_msg_def)

theorem set_tone_atomic_witness:
  "map_of TONE_PROMPTS (strip (lower ''  Dark_HUMOR '')) = map_of TONE_PROMPTS ''dark_humor''
   \<and> fst (set_tone ''  Dark_HUMOR '' example_conversation) = Inr ()
   \<and> map (\<lambda>m. Some (content m)) (messages (snd (set_tone ''  Dark_HUMOR '' example_conversation)))
       = [map_of TONE_PROMPTS ''dark_humor'']
   \<and> map role (messages (snd (set_tone ''  Dark_HUMOR '' example_conversation))) = [''system'']
   \<and> map_of TONE_PROMPTS (strip (lower ''angry'')) = None
   \<and> fst (set_tone ''angry'' example_conversation) = Inl invalid_tone
   \<and> snd (set_tone ''angry'' example_conversation) = example_conversation"
proof -
  have key: "map_of TONE_PROMPTS (strip (lower ''  Dark_HUMOR '')) = map_of TONE_PROMPTS ''dark_humor''"
    by code_simp
  obtain p where p: "map_of TONE_PROMPTS ''dark_humor'' = Some p"
    by (simp add: TONE_PROMPTS_def)
  have none: "map_of TONE_PROMPTS (strip (lower ''angry'')) = None"
    by code_simp
  show ?thesis
    using set_tone_atomic [of "''  Dark_HUMOR ''" p example_conversation]
      set_tone_atomic [of "''angry''" p example_conversation] key p none
    by simp
qed

section \<open>Creating a chat with an unknown tone\<close>

text \<open>
  Claim C10. Creation is atomic with respect to the registry. When \<open>new_chat\<close> is called
  with a tone that is not in the tone registry, the registry is left exactly as it was,
  and for an identifier that is not yet in use the call raises the invalid-tone error of
  \<open>set_tone\<close>: the constructor raises before the assignment to the registry, so no
  entry appears under the identifier.
\<close>

theorem new_chat_invalid_tone:
  "map_of TONE_PROMPTS (strip (lower (new_tone data))) = None \<Longrightarrow>
   snd (new_chat data conversations) = conversations
   \<and> (map_of conversations (new_conversation_id data) = None \<longrightarrow>
        fst (new_chat data conversations) = Inl invalid_tone
        \<and> map_of (snd (new_chat data conversations)) (new_conversation_id data) = None)"
  by (simp add: new_chat_def Conversation_def set_tone_invalid split: option.splits)

theorem new_chat_invalid_tone_witness:
  "map_of TONE_PROMPTS (strip (lower ''angry'')) = None
   \<and> map_of [(''work'', example_conversation)] ''c2'' = None
   \<and> fst (new_chat \<lparr>new_conversation_id = ''c2'', new_tone = ''angry'', new_title = ''T''\<rparr>
        [(''work'', example_conversation)]) = Inl invalid_tone
   \<and> snd (new_chat \<lparr>new_conversation_id = ''c2'', new_tone = ''angry'', new_title = ''T''\<rparr>
        [(''work'', example_conversation)]) = [(''work'', example_conversation)]"
proof -
  have none: "map_of TONE_PROMPTS (strip (lower ''angry'')) = None"
    by code_simp
  show ?thesis
    using new_chat_invalid_tone
      [of "\<lparr>new_conversation_id = ''c2'', new_tone = ''angry'', new_title = ''T''\<rparr>"
          "[(''work'', example_conversation)]"] none
    by simp
qed

section \<open>What \<open>remember\<close> extracts\<close>

lemma memory_remember:
  "memory (remember msg c) =
    (let m1 = (case map_option group1 (search name_rx msg) of
                 None \<Rightarrow> memory c
               | Some n \<Rightarrow> AList.update ''name'' (capitalize n) (memory c))
     in case map_option group1 (search mood_rx msg) of
          None \<Rightarrow> m1
        | Some g \<Rightarrow>
            if lower g \<in> set [''a'', ''bit'', ''feeling''] then m1
            else AList.update ''mood'' (lower g) m1)"
  by (simp add: remember_def Let_def split: option.splits)

lemma name_alice: "map_option group1 (search name_rx ''my name is Alice'') = Some ''Alice''"
  by code_simp

lemma mood_alice: "map_option group1 (search mood_rx ''my name is Alice'') = None"
  by code_simp

lemma name_sad: "map_option group1 (search name_rx (''I'' @ apos @ ''m feeling sad'')) = None"
  by code_simp

lemma mood_sad:
  "map_option group1 (search mood_rx (''I'' @ apos @ ''m feeling sad'')) = Some ''sad''"
  by code_simp

lemma name_student: "map_option group1 (search name_rx ''I am a student'') = None"
  by code_simp

lemma mood_student: "map_option group1 (search mood_rx ''I am a student'') = Some ''a''"
  by code_simp

lemma capitalize_alice: "capitalize ''Alice'' = ''Alice''"
  by code_simp

lemma lower_sad: "lower ''sad'' = ''sad''"
  by code_simp

lemma lower_a: "lower ''a'' = ''a''"
  by code_simp

text \<open>
  Claim C8. The three reference examples of the memory extractor, on any conversation:
  \<open>remember("my name is Alice")\<close> stores the name \<open>Alice\<close>, \<open>remember("I'm feeling sad")\<close>
  stores the mood \<open>sad\<close>, and \<open>remember("I am a student")\<close> leaves the memory as it was,
  so it sets no mood (the pattern captures the word \<open>a\<close>, which the filter rejects).
\<close>

theorem remember_examples:
  "map_of (memory (remember ''my name is Alice'' c)) ''name'' = Some ''Alice''
   \<and> map_of (memory (remember (''I'' @ apos @ ''m feeling sad'') c)) ''mood'' = Some ''sad''
   \<and> memory (remember ''I am a student'' c) = memory c"
proof (intro conjI)
  show "map_of (memory (remember ''my name is Alice'' c)) ''name'' = Some ''Alice''"
    unfolding memory_remember name_alice mood_alice
    by (simp del: capitalize.simps add: capitalize_alice AList.update_conv')
  show "map_of (memory (remember (''I'' @ apos @ ''m feeling sad'') c)) ''mood'' = Some ''sad''"
    unfolding memory_remember name_sad mood_sad
    by (simp add: lower_sad AList.update_conv')
  show "memory (remember ''I am a student'' c) = memory c"
    unfolding memory_remember name_student mood_student
    by (simp add: lower_a)
qed

lemma name_a_teacher: "map_option group1 (search name_rx ''I am a teacher'') = None"
  by code_simp

lemma mood_a_teacher: "map_option group1 (search mood_rx ''I am a teacher'') = Some ''a''"
  by code_simp

lemma name_teacher: "map_option group1 (search name_rx ''I am teacher'') = None"
  by code_simp

lemma mood_teacher: "map_option group1 (search mood_rx ''I am teacher'') = Some ''teacher''"
  by code_simp

lemma lower_teacher: "lower ''teacher'' = ''teacher''"
  by code_simp

text \<open>
  Claim C9, as stated, fails: on a new conversation \<open>remember("I am a teacher")\<close> does not
  store the mood \<open>teacher\<close>.
\<close>

theorem a_teacher_counterexample:
  "map_of (memory (remember ''I am a teacher''
      \<lparr>messages = [], active = True, tone_set = True, current_tone = ''funny'',
       memory = [], title = ''New Chat''\<rparr>)) ''mood'' \<noteq> Some ''teacher''"
  by code_simp

text \<open>
  Claim C9, amended. The filter compares only the captured word. In
  \<open>remember("I am a teacher")\<close> the pattern captures the article \<open>a\<close>, the filter rejects
  it and the memory stays as it was, so no mood is set. A noun that follows \<open>I am\<close>
  directly is captured and stored: \<open>remember("I am teacher")\<close> sets the mood \<open>teacher\<close>.
\<close>

theorem a_teacher_captures_article:
  "map_option group1 (search mood_rx ''I am a teacher'') = Some ''a''
   \<and> memory (remember ''I am a teacher'' c) = memory c
   \<and> map_of (memory (remember ''I am teacher'' c)) ''mood'' = Some ''teacher''"
proof (intro conjI)
  show "map_option group1 (search mood_rx ''I am a teacher'') = Some ''a''"
    by (rule mood_a_teacher)
  show "memory (remember ''I am a teacher'' c) = memory c"
    unfolding memory_remember name_a_teacher mood_a_teacher by (simp add: lower_a)
  show "map_of (memory (remember ''I am teacher'' c)) ''mood'' = Some ''teacher''"
    unfolding memory_remember name_teacher mood_teacher
    by (simp add: lower_teacher AList.update_conv')
qed

section \<open>The GIF search never raises\<close>







lemma try_fallback:
  "fetch_results E 0 (search_url E (quote (normalize_query query))) = Inr g1 \<Longrightarrow> \<not> truthy g1 \<Longrightarrow>
   try_get_gif_url E query =
     (case fetch_results E 1 (search_url E ''funny'') of
        Inl e \<Rightarrow> Inl e | Inr g2 \<Rightarrow> select_gif E g2,
      [search_url E (quote (normalize_query query)), search_url E ''funny''])"
  by (simp add: try_get_gif_url_def Let_def split: sum.splits)


lemma fetch_fallback_only:
  "fetch_results (example_env (fallback_only gs)) n url = Inr (PList (if n = 0 then [] else gs))"
  by (simp add: fetch_results_def and_then_def example_env_def fallback_only_def
      results_response_def raise_for_status_def json_def)

lemma gif_url_of_candidate: "gif_url_of (candidate u) = Inr (PStr u)"
  by (simp add: candidate_def gif_url_of_def and_then_def)








section \<open>The fallback search\<close>

lemma select_gif_list:
  "gs \<noteq> [] \<Longrightarrow> select_gif E (PList gs) = gif_url_of (gs ! (random_choice E mod length gs))"
  by (simp add: select_gif_def and_then_def)

text \<open>
  Claim C7, as stated, fails: the search gives no result, the fallback search gives one
  candidate, whose animated-image URL is the URL that the program also keeps as its fixed
  fallback asset, and the fetcher returns the fixed fallback asset.
\<close>

theorem fallback_candidate_counterexample:
  "fetch_results (example_env (fallback_only [candidate FALLBACK_GIF])) 0
      (search_url (example_env (fallback_only [candidate FALLBACK_GIF]))
         (quote (normalize_query ''cats''))) = Inr (PList [])
   \<and> fetch_results (example_env (fallback_only [candidate FALLBACK_GIF])) 1
      (search_url (example_env (fallback_only [candidate FALLBACK_GIF])) ''funny'')
       = Inr (PList [candidate FALLBACK_GIF])
   \<and> fst (get_gif_url (example_env (fallback_only [candidate FALLBACK_GIF])) ''cats'')
       = Inr (PStr FALLBACK_GIF)"
  by (simp add: fetch_fallback_only get_gif_url_def try_fallback select_gif_list
      candidate_def gif_url_of_def and_then_def)

text \<open>
  Claim C7, amended. When the search gives no result and the fallback search gives a
  non-empty list of candidates that each carry an animated-image URL, the fetcher
  requests exactly the search URL and then the URL of the query \<open>funny\<close>, and returns
  the URL of one of the fallback candidates (the one that \<open>random.choice\<close> draws from
  the whole list). The result differs from the fixed fallback asset when no candidate has
  the fallback asset's URL as its own.
\<close>

theorem fallback_candidate:
  assumes "fetch_results E 0 (search_url E (quote (normalize_query query))) = Inr g1"
    and "\<not> truthy g1"
    and "fetch_results E 1 (search_url E ''funny'') = Inr (PList gs)"
    and "gs \<noteq> []"
    and "\<forall>g\<in>set gs. \<exists>u. gif_url_of g = Inr (PStr u)"
  shows "(\<exists>g\<in>set gs. gif_url_of g = fst (get_gif_url E query))
    \<and> snd (get_gif_url E query)
        = [search_url E (quote (normalize_query query)), search_url E ''funny'']
    \<and> ((\<forall>g\<in>set gs. gif_url_of g \<noteq> Inr (PStr FALLBACK_GIF)) \<longrightarrow>
         fst (get_gif_url E query) \<noteq> Inr (PStr FALLBACK_GIF))"
proof -
  let ?g = "gs ! (random_choice E mod length gs)"
  have mem: "?g \<in> set gs"
    using assms(4) by simp
  then obtain u where u: "gif_url_of ?g = Inr (PStr u)"
    using assms(5) by blast
  have "try_get_gif_url E query =
      (Inr (PStr u), [search_url E (quote (normalize_query query)), search_url E ''funny''])"
    using assms(1-4) u by (simp add: try_fallback select_gif_list)
  then have r: "get_gif_url E query =
      (Inr (PStr u), [search_url E (quote (normalize_query query)), search_url E ''funny''])"
    by (simp add: get_gif_url_def)
  show ?thesis
    using r u mem by force
qed

theorem fallback_candidate_witness:
  "fetch_results (example_env (fallback_only [candidate ''https://t/1.gif'', candidate ''https://t/2.gif'']))
      0 (search_url (example_env (fallback_only [candidate ''https://t/1.gif'', candidate ''https://t/2.gif'']))
         (quote (normalize_query ''cats''))) = Inr (PList [])
   \<and> \<not> truthy (PList [])
   \<and> fetch_results (example_env (fallback_only [candidate ''https://t/1.gif'', candidate ''https://t/2.gif'']))
      1 (search_url (example_env (fallback_only [candidate ''https://t/1.gif'', candidate ''https://t/2.gif'']))
         ''funny'') = Inr (PList [candidate ''https://t/1.gif'', candidate ''https://t/2.gif''])
   \<and> fst (get_gif_url (example_env (fallback_only [candidate ''https://t/1.gif'', candidate ''https://t/2.gif'']))
        ''cats'') \<noteq> Inr (PStr FALLBACK_GIF)
   \<and> fst (get_gif_url (example_env (fallback_only [candidate ''https://t/1.gif'', candidate ''https://t/2.gif'']))
        ''cats'') \<in> gif_url_of ` set [candidate ''https://t/1.gif'', candidate ''https://t/2.gif'']"
proof -
  let ?gs = "[candidate ''https://t/1.gif'', candidate ''https://t/2.gif'']"
  let ?E = "example_env (fallback_only ?gs)"
  have 1: "fetch_results ?E 0 (search_url ?E (quote (normalize_query ''cats''))) = Inr (PList [])"
    by (simp add: fetch_fallback_only)
  have 2: "\<not> truthy (PList [])"
    by simp
  have 3: "fetch_results ?E 1 (search_url ?E ''funny'') = Inr (PList ?gs)"
    by (simp add: fetch_fallback_only)
  have 4: "?gs \<noteq> []"
    by simp
  have 5: "\<forall>g\<in>set ?gs. \<exists>u. gif_url_of g = Inr (PStr u)"
    by (simp add: gif_url_of_candidate)
  have 6: "\<forall>g\<in>set ?gs. gif_url_of g \<noteq> Inr (PStr FALLBACK_GIF)"
    by (simp add: gif_url_of_candidate FALLBACK_GIF_def)
  show ?thesis
    using fallback_candidate [OF 1 2 3 4 5] 1 2 3 6 by auto
qed

section \<open>The onboarding gate\<close>

lemma Conversation_built:
  "Conversation tone ttl = Inr c \<Longrightarrow>
   tone_set c \<and> active c \<and> memory c = [] \<and> title c = ttl \<and> current_tone c = strip (lower tone)
   \<and> map_option (\<lambda>p. [system_msg p]) (map_of TONE_PROMPTS (strip (lower tone))) = Some (messages c)"
  by (auto simp: Conversation_def set_tone_def Let_def split: option.splits if_splits)

lemma funny_key: "map_of TONE_PROMPTS (strip (lower ''funny'')) = map_of TONE_PROMPTS ''funny''"
  by code_simp

lemma Conversation_default: "\<exists>c. Conversation ''funny'' ''New Chat'' = Inr c"
  by (simp add: Conversation_def set_tone_def funny_key) (simp add: TONE_PROMPTS_def)


lemma get_missing:
  "map_of conversations cid = None \<Longrightarrow> Conversation ''funny'' ''New Chat'' = Inr c \<Longrightarrow>
   get_or_create_conversation cid conversations = (Inr c, AList.update cid c conversations)"
  by (simp add: get_or_create_conversation_def)


lemma tone_set_remember [simp]: "tone_set (remember msg c) = tone_set c"
  by (simp add: remember_def Let_def split: option.splits)

lemma tone_set_inject_step [simp]: "tone_set (inject_step c) = tone_set c"
  by (simp add: inject_step_def inject_memory_context_def Let_def)

lemma tone_set_append_msg [simp]: "tone_set (append_msg r t c) = tone_set c"
  by (simp add: append_msg_def)

lemma tone_set_set_tone: "tone_set c \<Longrightarrow> tone_set (snd (set_tone tone c))"
  by (simp add: set_tone_def Let_def split: option.splits)

lemma all_tone_set_update:
  "all_tone_set conversations \<Longrightarrow> tone_set c \<Longrightarrow> all_tone_set (AList.update cid c conversations)"
  unfolding all_tone_set_def by (induction conversations) auto

lemma all_tone_set_lookup:
  "all_tone_set conversations \<Longrightarrow> map_of conversations cid = Some c \<Longrightarrow> tone_set c"
  unfolding all_tone_set_def by (induction conversations) (auto split: if_splits)

lemma get_or_create_tone_set:
  assumes "all_tone_set conversations"
    and "get_or_create_conversation cid conversations = (Inr c, conversations1)"
  shows "tone_set c \<and> all_tone_set conversations1"
proof (cases "map_of conversations cid")
  case None
  with assms(2) have "Conversation ''funny'' ''New Chat'' = Inr c"
    and "conversations1 = AList.update cid c conversations"
    by (auto simp: get_or_create_conversation_def split: sum.splits)
  then show ?thesis
    using assms(1) Conversation_built all_tone_set_update by blast
next
  case (Some c')
  with assms show ?thesis
    by (auto simp: get_or_create_conversation_def dest: all_tone_set_lookup)
qed

lemma get_or_create_error:
  "get_or_create_conversation cid conversations = (Inl e, conversations1) \<Longrightarrow>
   conversations1 = conversations"
  by (auto simp: get_or_create_conversation_def split: option.splits sum.splits)

lemma gif_command_tone_set:
  "all_tone_set conversations \<Longrightarrow> tone_set c \<Longrightarrow>
   all_tone_set (fst (snd (gif_command E cid user_msg c conversations)))"
proof (cases "get_gif_url E (strip (drop 5 user_msg))")
  case (Pair r urls)
  assume "all_tone_set conversations" "tone_set c"
  then show ?thesis
    using Pair by (cases r) (simp_all add: gif_command_def Let_def all_tone_set_update)
qed

lemma tone_command_tone_set:
  assumes "all_tone_set conversations" and "tone_set c"
  shows "all_tone_set (fst (snd (tone_command E cid user_msg c conversations)))"
proof -
  let ?tone = "strip (drop 5 user_msg)"
  obtain r c1 where st: "set_tone ?tone c = (r, c1)"
    by fastforce
  have c1: "tone_set c1"
    using tone_set_set_tone [OF assms(2), of ?tone] st by simp
  obtain g urls where gg: "celebrate_gif E ?tone = (g, urls)"
    by fastforce
  show ?thesis
    using st gg c1 assms(1)
    by (cases r; cases g)
      (simp_all add: tone_command_def Let_def all_tone_set_update split: error.splits)
qed

lemma chat_turn_tone_set:
  assumes "all_tone_set conversations" and "tone_set c"
  shows "all_tone_set (fst (snd (chat_turn E inp user_msg c conversations)))"
proof (cases "sentiment_analyzer E user_msg")
  case (Inl e)
  then show ?thesis
    using assms by (simp add: chat_turn_def Let_def all_tone_set_update)
next
  case (Inr label)
  let ?c4 = "append_msg (input_role inp) (input_message inp)
      (append_msg ''system'' (mood_note (lower label)) (inject_step (remember user_msg c)))"
  show ?thesis
  proof (cases "query_groq_api E ?c4")
    case (Inl e)
    then show ?thesis
      using assms Inr by (simp add: chat_turn_def Let_def all_tone_set_update)
  next
    case groq: (Inr answer)
    obtain d calls2 where d: "decorate E (lower label) ?c4 answer = (d, calls2)"
      by fastforce
    show ?thesis
      using assms Inr groq d
      by (cases d) (auto simp: chat_turn_def Let_def all_tone_set_update)
  qed
qed

lemma chat_tone_set:
  assumes "all_tone_set conversations"
  shows "all_tone_set (fst (snd (chat E inp conversations)))"
proof (cases "get_or_create_conversation (input_conversation_id inp) conversations")
  case (Pair r conversations1)
  show ?thesis
  proof (cases r)
    case (Inl e)
    with Pair assms show ?thesis
      by (auto simp: chat_def dest: get_or_create_error)
  next
    case (Inr c)
    with Pair assms have "tone_set c \<and> all_tone_set conversations1"
      by (auto dest: get_or_create_tone_set)
    with Pair Inr show ?thesis
      by (simp add: chat_def Let_def gif_command_tone_set tone_command_tone_set
          chat_turn_tone_set)
  qed
qed

lemma new_chat_tone_set:
  "all_tone_set conversations \<Longrightarrow> all_tone_set (snd (new_chat data conversations))"
  by (auto simp: new_chat_def all_tone_set_update split: option.splits sum.splits
      dest: Conversation_built)

text \<open>Every conversation that the constructor builds has its \<open>tone_set\<close> flag set, and
  \<open>chat\<close> and \<open>new_chat\<close> keep it set in every conversation of the registry (the lemmas
  above). A first message \<open>hello\<close> for an identifier that the registry does not know is
  therefore processed by the chat pipeline under the default tone.\<close>

lemma first_message_on_new_conversation:
  "Conversation ''funny'' ''New Chat'' = Inr default_conversation
   \<and> tone_set default_conversation \<and> length (messages default_conversation) = 1
   \<and> fst (chat (example_env offline) (user_says ''hello'') [])
     \<noteq> Inr \<lparr>response = onboarding, conversation_id = ''c1'', gif = None\<rparr>
   \<and> map (\<lambda>(cid, c). (cid, tone_set c, length (messages c)))
        (fst (snd (chat (example_env offline) (user_says ''hello'') []))) = [(''c1'', True, 4)]
   \<and> length (snd (snd (chat (example_env offline) (user_says ''hello'') []))) = 3"
  by code_simp



section \<open>The mood note\<close>

lemma Conversation_funny: "Conversation ''funny'' ''New Chat'' = Inr default_conversation"
  by code_simp

lemma chat_is_chat_turn:
  assumes "get_or_create_conversation (input_conversation_id inp) conversations = (Inr c, conversations1)"
    and "active c" and "tone_set c"
    and "\<not> startswith (lower (strip (input_message inp))) ''/gif''"
    and "\<not> startswith (lower (strip (input_message inp))) ''/tone''"
  shows "chat E inp conversations = chat_turn E inp (strip (input_message inp)) c conversations1"
  using assms by (simp add: chat_def Let_def)

lemma chat_turn_success:
  assumes "fst (chat_turn E inp user_msg c conversations) = Inr r"
  shows "\<exists>label. sentiment_analyzer E user_msg = Inr label
    \<and> fst (snd (chat_turn E inp user_msg c conversations)) =
        AList.update (input_conversation_id inp)
          (append_msg ''assistant'' (response r)
            (append_msg (input_role inp) (input_message inp)
              (append_msg ''system'' (mood_note (lower label))
                (inject_step (remember user_msg c))))) conversations"
proof (cases "sentiment_analyzer E user_msg")
  case (Inl e)
  then show ?thesis
    using assms by (simp add: chat_turn_def Let_def)
next
  case (Inr label)
  let ?c4 = "append_msg (input_role inp) (input_message inp)
      (append_msg ''system'' (mood_note (lower label)) (inject_step (remember user_msg c)))"
  show ?thesis
  proof (cases "query_groq_api E ?c4")
    case (Inl e)
    then show ?thesis
      using assms Inr by (simp add: chat_turn_def Let_def)
  next
    case groq: (Inr answer)
    obtain d calls2 where d: "decorate E (lower label) ?c4 answer = (d, calls2)"
      by fastforce
    show ?thesis
      using assms Inr groq d
      by (cases d) (auto simp: chat_turn_def Let_def)
  qed
qed

text \<open>
  Claim C4, as stated, fails: after a completed turn the mood note of that turn is an
  entry of the stored transcript, which then reads tone prompt, mood note, user message,
  assistant reply.
\<close>

theorem mood_note_counterexample:
  "\<lparr>role = ''system'', content = mood_note ''negative''\<rparr>
     \<in> set (concat (map (\<lambda>(cid, c). messages c)
          (fst (snd (chat (example_env offline) (user_says ''hello'') [])))))
   \<and> map (\<lambda>(cid, c). map role (messages c))
        (fst (snd (chat (example_env offline) (user_says ''hello'') [])))
       = [[''system'', ''system'', ''user'', ''assistant'']]"
  by code_simp

text \<open>
  Claim C4, amended. The mood note is appended to the stored transcript and stays there.
  After every chat turn that returns a reply (an active conversation with its tone set,
  a message that is not a command), the stored transcript is the transcript after the
  memory update and the guarded memory injection, followed by the system entry with the
  mood note of the classifier's label, the user's entry, and the assistant's reply.
\<close>

theorem mood_note_stays:
  assumes "get_or_create_conversation (input_conversation_id inp) conversations = (Inr c, conversations1)"
    and "active c" and "tone_set c"
    and "\<not> startswith (lower (strip (input_message inp))) ''/gif''"
    and "\<not> startswith (lower (strip (input_message inp))) ''/tone''"
    and "fst (chat E inp conversations) = Inr r"
  shows "\<exists>label c2. sentiment_analyzer E (strip (input_message inp)) = Inr label
      \<and> map_of (fst (snd (chat E inp conversations))) (input_conversation_id inp) = Some c2
      \<and> messages c2 = messages (inject_step (remember (strip (input_message inp)) c))
          @ [\<lparr>role = ''system'', content = mood_note (lower label)\<rparr>,
             \<lparr>role = input_role inp, content = input_message inp\<rparr>,
             \<lparr>role = ''assistant'', content = response r\<rparr>]"
proof -
  have eq: "chat E inp conversations = chat_turn E inp (strip (input_message inp)) c conversations1"
    using assms(1-5) by (rule chat_is_chat_turn)
  with assms(6) obtain label where
    l: "sentiment_analyzer E (strip (input_message inp)) = Inr label"
    and u: "fst (snd (chat_turn E inp (strip (input_message inp)) c conversations1)) =
        AList.update (input_conversation_id inp)
          (append_msg ''assistant'' (response r)
            (append_msg (input_role inp) (input_message inp)
              (append_msg ''system'' (mood_note (lower label))
                (inject_step (remember (strip (input_message inp)) c))))) conversations1"
    using chat_turn_success [of E inp "strip (input_message inp)" c conversations1 r] by auto
  show ?thesis
    using l u eq by (simp add: AList.update_conv' append_msg_def)
qed

theorem mood_note_stays_witness:
  "get_or_create_conversation (input_conversation_id (user_says ''hello'')) []
      = (Inr default_conversation, [(''c1'', default_conversation)])
   \<and> active default_conversation \<and> tone_set default_conversation
   \<and> \<not> startswith (lower (strip (input_message (user_says ''hello'')))) ''/gif''
   \<and> \<not> startswith (lower (strip (input_message (user_says ''hello'')))) ''/tone''
   \<and> fst (chat (example_env offline) (user_says ''hello'') [])
       = Inr \<lparr>response = ''I am here for you.'', conversation_id = ''c1'', gif = Some PNone\<rparr>
   \<and> map_option messages
        (map_of (fst (snd (chat (example_env offline) (user_says ''hello'') []))) ''c1'')
       = Some (messages default_conversation
           @ [\<lparr>role = ''system'', content = mood_note ''negative''\<rparr>,
              \<lparr>role = ''user'', content = ''hello''\<rparr>,
              \<lparr>role = ''assistant'', content = ''I am here for you.''\<rparr>])"
proof -
  let ?E = "example_env offline"
  let ?inp = "user_says ''hello''"
  have 1: "get_or_create_conversation (input_conversation_id ?inp) []
      = (Inr default_conversation, [(''c1'', default_conversation)])"
    by (simp add: get_or_create_conversation_def Conversation_funny user_says_def)
  have 2: "active default_conversation" "tone_set default_conversation"
    by (simp_all add: default_conversation_def)
  have 3: "\<not> startswith (lower (strip (input_message ?inp))) ''/gif''"
    "\<not> startswith (lower (strip (input_message ?inp))) ''/tone''"
    by code_simp+
  have 4: "fst (chat ?E ?inp [])
       = Inr \<lparr>response = ''I am here for you.'', conversation_id = ''c1'', gif = Some PNone\<rparr>"
    by code_simp
  have 5: "inject_step (remember (strip (input_message ?inp)) default_conversation)
      = default_conversation"
    by code_simp
  have 6: "lower ''NEGATIVE'' = ''negative''"
    by code_simp
  have 7: "sentiment_analyzer ?E msg = Inr ''NEGATIVE''" for msg
    by (simp add: example_env_def)
  from mood_note_stays [OF 1 2 3 4] obtain label c2 where
    "sentiment_analyzer ?E (strip (input_message ?inp)) = Inr label"
    "map_of (fst (snd (chat ?E ?inp []))) (input_conversation_id ?inp) = Some c2"
    "messages c2 = messages (inject_step (remember (strip (input_message ?inp)) default_conversation))
          @ [\<lparr>role = ''system'', content = mood_note (lower label)\<rparr>,
             \<lparr>role = input_role ?inp, content = input_message ?inp\<rparr>,
             \<lparr>role = ''assistant'', content = response
                \<lparr>response = ''I am here for you.'', conversation_id = ''c1'', gif = Some PNone\<rparr>\<rparr>]"
    by blast
  then have "map_option messages (map_of (fst (snd (chat ?E ?inp []))) ''c1'')
       = Some (messages default_conversation
           @ [\<lparr>role = ''system'', content = mood_note ''negative''\<rparr>,
              \<lparr>role = ''user'', content = ''hello''\<rparr>,
              \<lparr>role = ''assistant'', content = ''I am here for you.''\<rparr>])"
    using 5 6 7 by (simp add: user_says_def)
  then show ?thesis
    using 1 2 3 4 by simp
qed

section \<open>The memory context\<close>

text \<open>
  Claim C1 fails on the code. A new conversation is told \<open>I'm feeling sad\<close> and then
  \<open>hello\<close>: the memory holds a mood and no name, the guard of the injection looks for
  \<open>user's name\<close> only, and the second turn inserts the memory context a second time.
  After the two turns the transcript starts with the tone prompt and two copies of the
  context. The guarded injection step alone, performed twice on a conversation that
  remembers only a mood, does the same.
\<close>

theorem memory_context_duplicated:
  "map (\<lambda>(cid, c). (memory c, take 3 (messages c)))
     (fst (snd (chat (example_env offline) (user_says ''hello'')
        (fst (snd (chat (example_env offline) (user_says (''I'' @ apos @ ''m feeling sad'')) []))))))
     = [([(''mood'', ''sad'')], messages default_conversation @ [sad_context, sad_context])]
   \<and> messages (inject_step (inject_step (default_conversation\<lparr>memory := [(''mood'', ''sad'')]\<rparr>)))
     = messages default_conversation @ [sad_context, sad_context]"
  by code_simp

text \<open>With a name in the memory the guard does its work: the injected context carries
  the marker, and a second injection step changes nothing.\<close>

lemma contains_name_marker: "contains (''The '' @ name_marker @ t) name_marker"
  by (simp add: name_marker_def startswith_def)

lemma join_space_Cons: "\<exists>t. join_space (p # ps) = p @ t"
  by (cases ps) simp_all

lemma memory_facts_name:
  "map_of mem ''name'' = Some n \<Longrightarrow>
   \<exists>t. join_space (memory_facts mem) = ''The '' @ name_marker @ t"
proof -
  assume "map_of mem ''name'' = Some n"
  then obtain fs where "memory_facts mem = (''The '' @ name_marker @ '' is '' @ n @ ''.'') # fs"
    by (simp add: memory_facts_def name_marker_def)
  then show ?thesis
    using join_space_Cons [of "''The '' @ name_marker @ '' is '' @ n @ ''.''" fs] by auto
qed

lemma mentions_name_injected:
  assumes "map_of (memory c) ''name'' = Some n"
  shows "mentions_name (inject_memory_context c)"
proof -
  obtain t where t: "join_space (memory_facts (memory c)) = ''The '' @ name_marker @ t"
    using memory_facts_name [OF assms] by blast
  have ne: "memory_facts (memory c) \<noteq> []"
    using assms by (simp add: memory_facts_def)
  have "contains (content (system_msg (join_space (memory_facts (memory c))))) name_marker"
    unfolding t system_msg_def using contains_name_marker [of t] by simp
  then show ?thesis
    using ne by (simp add: mentions_name_def inject_memory_context_def insert_at_def Let_def)
qed

lemma inject_step_once_with_name:
  assumes "map_of (memory c) ''name'' = Some n"
  shows "inject_step (inject_step c) = inject_step c"
proof (cases "memory c \<noteq> [] \<and> \<not> mentions_name c")
  case True
  then have "inject_step c = inject_memory_context c"
    by (simp add: inject_step_def)
  moreover have "mentions_name (inject_memory_context c)"
    using assms by (rule mentions_name_injected)
  ultimately show ?thesis
    by (simp add: inject_step_def)
next
  case False
  then show ?thesis
    by (auto simp: inject_step_def)
qed

section \<open>The celebration of a tone change\<close>

lemma get_gif_url_requests: "snd (get_gif_url E query) \<noteq> []"
proof -
  have "snd (try_get_gif_url E query) \<noteq> []"
    by (simp add: try_get_gif_url_def Let_def split: sum.splits)
  then show ?thesis
    by (cases "try_get_gif_url E query") (simp add: get_gif_url_def split: sum.splits)
qed

lemma tone_command_fetches:
  assumes "strip (drop 5 user_msg) \<noteq> []"
    and "fst (set_tone (strip (drop 5 user_msg)) c) = Inr ()"
  shows "(snd (snd (tone_command E cid user_msg c conversations)) \<noteq> [])
     = (strip (drop 5 user_msg) = ''funny'')"
proof -
  let ?tone = "strip (drop 5 user_msg)"
  obtain c1 where st: "set_tone ?tone c = (Inr (), c1)"
    using assms(2) by (cases "set_tone ?tone c") simp
  obtain g urls where gg: "celebrate_gif E ?tone = (g, urls)"
    by fastforce
  have urls: "(urls \<noteq> []) = (?tone = ''funny'')"
    using gg get_gif_url_requests [of E "''celebrate''"]
    by (auto simp: celebrate_gif_def split: if_splits)
  have "snd (snd (tone_command E cid user_msg c conversations)) = map TenorGet urls"
    using assms(1) st gg
    by (cases g) (simp_all add: tone_command_def Let_def split: error.splits)
  then show ?thesis
    using urls by simp
qed

text \<open>
  Claim C5 fails on the code. \<open>/tone FUNNY\<close> sets the tone \<open>funny\<close>, since
  \<open>set_tone\<close> lower-cases its argument, but the test for the celebration compares the
  argument as typed, so no request is made and no GIF is returned. \<open>/tone funny\<close> sets
  the same tone and requests the celebration GIF.
\<close>

theorem celebration_skipped:
  "map (\<lambda>(cid, c). current_tone c)
      (fst (snd (chat (example_env offline) (user_says ''/tone FUNNY'') []))) = [''funny'']
   \<and> fst (chat (example_env offline) (user_says ''/tone FUNNY'') [])
      = Inr \<lparr>response = ''Tone changed to '' @ apos @ ''FUNNY'' @ apos, conversation_id = ''c1'',
            gif = Some PNone\<rparr>
   \<and> snd (snd (chat (example_env offline) (user_says ''/tone FUNNY'') [])) = []
   \<and> map (\<lambda>(cid, c). current_tone c)
      (fst (snd (chat (example_env offline) (user_says ''/tone funny'') []))) = [''funny'']
   \<and> snd (snd (chat (example_env offline) (user_says ''/tone funny'') []))
      = [TenorGet ''https://api.tenor.com/v2/search?key=KEY&q=celebrate&limit=5&contentfilter=medium'']"
  by code_simp

end
